theory Spec2Isabelle
  imports Complex_Main
begin

section \<open>Numeric and library primitives\<close>

text \<open>
  Prices, multipliers and rewards are Python floats in the source. They are embedded as
  exact real numbers: every comparison, sum and product below is the mathematical one.
  Python integers (ticket counts, preferences, traffic, \<open>num_bins\<close>) are \<open>int\<close>.
\<close>

datatype error = KeyError | ValueError | ZeroDivisionError | StatisticsError

text \<open>\<open>np.clip(x, lo, hi)\<close>: \<open>minimum(maximum(x, lo), hi)\<close>.\<close>

definition clip :: "real \<Rightarrow> real \<Rightarrow> real \<Rightarrow> real" where
  "clip x lo hi = min (max x lo) hi"

text \<open>
  \<open>np.linspace(start, stop, num)\<close>: \<open>num\<close> evenly spaced samples with both end
  points; a negative \<open>num\<close> raises \<open>ValueError\<close>, a single sample is \<open>start\<close>.
\<close>

definition linspace :: "real \<Rightarrow> real \<Rightarrow> int \<Rightarrow> error + real list" where
  "linspace start stop num =
     (if num < 0 then Inl ValueError
      else if num = 1 then Inr [start]
      else Inr (map (\<lambda>i. start + real i * ((stop - start) / real_of_int (num - 1)))
                  [0..<nat num]))"

text \<open>
  \<open>np.digitize(x, bins, right=True)\<close> on increasing \<open>bins\<close> is
  \<open>searchsorted(bins, x, side='left')\<close>: the number of edges strictly below \<open>x\<close>, so that
  \<open>bins[i-1] < x \<le> bins[i]\<close> for the index \<open>i\<close> returned.
\<close>

definition digitize_right :: "real \<Rightarrow> real list \<Rightarrow> int" where
  "digitize_right x bins = int (length (filter (\<lambda>b. b < x) bins))"

section \<open>reward\_func.py\<close>

text \<open>
  Lines 30 to 39 of \<open>calculate_reward\<close>: clip, bin edges, clamped bin index and the base
  reward \<open>max(num_bins - bin_index, 0)\<close>. Result: base reward, bin index, bin edges.
\<close>

definition base_reward :: "real \<Rightarrow> real \<Rightarrow> real \<Rightarrow> int \<Rightarrow> error + (int \<times> int \<times> real list)" where
  "base_reward min_p max_p purchased_price num_bins =
     (let purchased = clip purchased_price min_p max_p in
      case linspace min_p max_p (num_bins + 1) of
        Inl e \<Rightarrow> Inl e
      | Inr bins \<Rightarrow>
          let bin_index = digitize_right purchased bins;
              bin_index = max 1 (min num_bins bin_index);
              reward = num_bins - bin_index;
              reward = max reward 0
          in Inr (reward, bin_index, bins))"

text \<open>Lines 41 to 45: the preference adjustment.\<close>

definition preference_adjustment :: "int \<Rightarrow> real \<Rightarrow> real" where
  "preference_adjustment preference reward =
     (if preference > 50 then reward + 0.25
      else if preference < 30 then reward - 1.5
      else reward)"

text \<open>Lines 47 to 52: the threshold adjustment.\<close>

definition threshold_adjustment :: "int \<Rightarrow> real \<Rightarrow> real \<Rightarrow> real" where
  "threshold_adjustment preference threshold reward =
     (if reward \<le> threshold then
        (if preference > 50 then reward + 0.75 else reward - 1.0)
      else reward)"

text \<open>
  The standalone scorer. It returns the triple \<open>(reward, bin_index, bins)\<close>; the bin index
  of an empty history is \<open>None\<close>.
\<close>

definition calculate_reward ::
  "real list \<Rightarrow> real \<Rightarrow> int \<Rightarrow> int \<Rightarrow> real \<Rightarrow> error + (real \<times> int option \<times> real list)" where
  "calculate_reward price_history purchased_price preference num_bins threshold =
     (case price_history of
        [] \<Rightarrow> Inr (0, None, [])
      | x # xs \<Rightarrow>
          let min_p = fold min xs x; max_p = fold max xs x in
          if min_p = max_p then
            Inr (real_of_int (num_bins - 1), Some 1, replicate (nat (num_bins + 1)) min_p)
          else
            (case base_reward min_p max_p purchased_price num_bins of
               Inl e \<Rightarrow> Inl e
             | Inr (reward, bin_index, bins) \<Rightarrow>
                 let reward = preference_adjustment preference (real_of_int reward);
                     reward = threshold_adjustment preference threshold reward
                 in Inr (reward, Some bin_index, bins)))"

section \<open>pricing.py: the engine state\<close>

text \<open>
  \<open>base_prices\<close> is the dictionary every loop of the engine iterates; it is kept as an
  association list in insertion order. The other dictionaries are only looked up and
  updated by key. Dates are microseconds since an epoch, so that \<open>timedelta.days\<close> is a
  floor division.
\<close>

record engine =
  base_prices :: "(string \<times> real) list"
  total_tickets :: "string \<rightharpoonup> int"
  sold_tickets :: "string \<rightharpoonup> int"
  concert_dates :: "string \<rightharpoonup> int"
  current_date :: int
  price_history :: "string \<rightharpoonup> real list"
  user_preferences :: "string \<rightharpoonup> int"

text \<open>\<open>d[k]\<close>, which raises \<open>KeyError\<close> on a missing key.\<close>

definition lookup :: "('k \<rightharpoonup> 'v) \<Rightarrow> 'k \<Rightarrow> error + 'v" where
  "lookup m k = (case m k of None \<Rightarrow> Inl KeyError | Some v \<Rightarrow> Inr v)"

text \<open>\<open>ConcertPricing.__init__\<close>, with the clock reading \<open>now\<close> passed in.\<close>

definition init :: "(string \<times> real) list \<Rightarrow> (string \<rightharpoonup> int) \<Rightarrow> (string \<rightharpoonup> int) \<Rightarrow> int \<Rightarrow> engine" where
  "init bp tt cd now =
     \<lparr> base_prices = bp,
       total_tickets = tt,
       sold_tickets = (\<lambda>c. map_option (\<lambda>_. 0) (tt c)),
       concert_dates = cd,
       current_date = now,
       price_history = map_of (map (\<lambda>(c, _). (c, [])) bp),
       user_preferences = map_of (map (\<lambda>(c, _). (c, 50)) bp) \<rparr>"

section \<open>pricing.py: the reward method\<close>

text \<open>
  Lines 161 to 172 of \<open>ConcertPricing.calculate_reward\<close>: the bin index is the digitize
  result as it is, and the base reward \<open>max(num_bins - bin_index, 0)\<close>.
\<close>

definition ConcertPricing_base_reward :: "real \<Rightarrow> real \<Rightarrow> real \<Rightarrow> int \<Rightarrow> error + (int \<times> int)" where
  "ConcertPricing_base_reward min_price max_price purchased_price num_bins =
     (let purchased_price_clipped = clip purchased_price min_price max_price in
      case linspace min_price max_price (num_bins + 1) of
        Inl e \<Rightarrow> Inl e
      | Inr bins \<Rightarrow>
          let bin_index = digitize_right purchased_price_clipped bins;
              reward = num_bins - bin_index;
              reward = max reward 0
          in Inr (reward, bin_index))"

definition ConcertPricing_calculate_reward :: "engine \<Rightarrow> string \<Rightarrow> real \<Rightarrow> int \<Rightarrow> error + real" where
  "ConcertPricing_calculate_reward e concert_name purchased_price num_bins =
     (case lookup (price_history e) concert_name of
        Inl err \<Rightarrow> Inl err
      | Inr [] \<Rightarrow> Inr 0
      | Inr (x # xs) \<Rightarrow>
          let min_price = fold min xs x; max_price = fold max xs x in
          if min_price = max_price then Inr (real_of_int (num_bins - 1))
          else
            (case ConcertPricing_base_reward min_price max_price purchased_price num_bins of
               Inl err \<Rightarrow> Inl err
             | Inr (reward, bin_index) \<Rightarrow>
                 let reward = real_of_int reward;
                     preference = (case user_preferences e concert_name of
                                     None \<Rightarrow> 50 | Some p \<Rightarrow> p);
                     reward = (if preference > 70 then reward + 0.5
                               else if preference < 30 then reward - 1.5
                               else reward)
                 in Inr (max reward 0)))"

section \<open>pricing.py: multipliers and the price\<close>

definition day_us :: int where
  "day_us = 86400000000"

definition time_multiplier :: "engine \<Rightarrow> string \<Rightarrow> error + real" where
  "time_multiplier e concert_name =
     (case lookup (concert_dates e) concert_name of
        Inl err \<Rightarrow> Inl err
      | Inr d \<Rightarrow>
          let days_before = (d - current_date e) div day_us in
          if days_before > 30 then Inr 0.85
          else if days_before \<ge> 7 then Inr 1.0
          else Inr 1.25)"

definition inventory_multiplier :: "engine \<Rightarrow> string \<Rightarrow> error + real" where
  "inventory_multiplier e concert_name =
     (case lookup (total_tickets e) concert_name of
        Inl err \<Rightarrow> Inl err
      | Inr total_n \<Rightarrow>
          (case lookup (sold_tickets e) concert_name of
             Inl err \<Rightarrow> Inl err
           | Inr sold \<Rightarrow>
               if total_n = 0 then Inl ZeroDivisionError
               else
                 let remaining_ratio = real_of_int (total_n - sold) / real_of_int total_n in
                 if remaining_ratio > 0.5 then Inr 1.0
                 else if remaining_ratio > 0.2 then Inr 1.15
                 else Inr 1.35))"

definition traffic_multiplier :: "int \<Rightarrow> real" where
  "traffic_multiplier web_traffic =
     (if web_traffic < 30 then 0.95
      else if web_traffic < 70 then 1.0
      else 1.2)"

definition preference_multiplier :: "engine \<Rightarrow> string \<Rightarrow> real" where
  "preference_multiplier e concert_name =
     (let preference = (case user_preferences e concert_name of None \<Rightarrow> 50 | Some p \<Rightarrow> p) in
      if preference < 50 then 0.9
      else if preference < 70 then 1.0
      else 1.15)"

text \<open>\<open>round(x, 2)\<close>: to two decimals, a tie going to the even neighbour.\<close>

definition round2 :: "real \<Rightarrow> real" where
  "round2 x =
     (let y = x * 100; f = \<lfloor>y\<rfloor>; d = y - real_of_int f in
      real_of_int (if d < 1 / 2 then f
                   else if 1 / 2 < d then f + 1
                   else if even f then f else f + 1) / 100)"

text \<open>\<open>statistics.median\<close>.\<close>

definition median :: "real list \<Rightarrow> error + real" where
  "median data =
     (let data = sort data; n = length data in
      if n = 0 then Inl StatisticsError
      else if n mod 2 = 1 then Inr (data ! (n div 2))
      else let i = n div 2 in Inr ((data ! (i - 1) + data ! i) / 2))"

definition get_price :: "engine \<Rightarrow> string \<Rightarrow> int \<Rightarrow> error + real" where
  "get_price e concert_name web_traffic =
     (case lookup (map_of (base_prices e)) concert_name of
        Inl err \<Rightarrow> Inl err
      | Inr base \<Rightarrow>
     (case time_multiplier e concert_name of
        Inl err \<Rightarrow> Inl err
      | Inr t_factor \<Rightarrow>
     (case inventory_multiplier e concert_name of
        Inl err \<Rightarrow> Inl err
      | Inr i_factor \<Rightarrow>
          let w_factor = traffic_multiplier web_traffic;
              p_factor = preference_multiplier e concert_name;
              raw_price = round2 (base * t_factor * i_factor * w_factor * p_factor)
          in
          (case lookup (price_history e) concert_name of
             Inl err \<Rightarrow> Inl err
           | Inr [] \<Rightarrow> Inr raw_price
           | Inr (x # xs) \<Rightarrow>
               (case median (x # xs) of
                  Inl err \<Rightarrow> Inl err
                | Inr floor_price \<Rightarrow> Inr (max raw_price floor_price))))))"

section \<open>pricing.py: selling tickets and the prompt parser\<close>

definition sell_ticket :: "engine \<Rightarrow> string \<Rightarrow> int \<Rightarrow> error + engine" where
  "sell_ticket e concert_name num =
     (case lookup (total_tickets e) concert_name of
        Inl err \<Rightarrow> Inl err
      | Inr total_n \<Rightarrow>
          (case lookup (sold_tickets e) concert_name of
             Inl err \<Rightarrow> Inl err
           | Inr sold \<Rightarrow>
               let remaining = total_n - sold;
                   num = min num remaining
               in Inr (e\<lparr>sold_tickets := (sold_tickets e)(concert_name \<mapsto> sold + num)\<rparr>)))"

text \<open>A run of \<open>sell_ticket\<close> calls; the first exception ends it.\<close>

fun sell_sequence :: "engine \<Rightarrow> (string \<times> int) list \<Rightarrow> error + engine" where
  "sell_sequence e [] = Inr e"
| "sell_sequence e ((concert_name, num) # ops) =
     (case sell_ticket e concert_name num of
        Inl err \<Rightarrow> Inl err
      | Inr e' \<Rightarrow> sell_sequence e' ops)"

text \<open>\<open>str.lower\<close> on the ASCII letters, and the substring test \<open>needle in hay\<close>.\<close>

definition lower_char :: "char \<Rightarrow> char" where
  "lower_char c =
     (let n = (of_char c :: nat) in if 65 \<le> n \<and> n \<le> 90 then char_of (n + 32) else c)"

definition lower :: "string \<Rightarrow> string" where
  "lower s = map lower_char s"

fun contains :: "string \<Rightarrow> string \<Rightarrow> bool" where
  "contains needle [] = (needle = [])"
| "contains needle (c # cs) = (take (length needle) (c # cs) = needle \<or> contains needle cs)"

text \<open>
  The first loop of \<open>_parse_user_prompt\<close> is the search for the first matching key, the
  second loop writes one preference per key, in key order.
\<close>

definition parse_user_prompt :: "engine \<Rightarrow> string \<Rightarrow> engine" where
  "parse_user_prompt e prompt =
     (let prompt_lower = lower prompt;
          selected_concert =
            List.find (\<lambda>concert. contains (lower concert) prompt_lower) (map fst (base_prices e))
      in e\<lparr>user_preferences :=
             fold (\<lambda>concert prefs.
                     if Some concert = selected_concert then prefs(concert \<mapsto> 95)
                     else prefs(concert \<mapsto> 40))
                  (map fst (base_prices e)) (user_preferences e)\<rparr>)"

section \<open>pricing.py: one simulated day\<close>

record day_entry =
  Price :: real
  Traffic :: int
  Preference :: int
  Sold_Today :: int
  Total_Sold :: int
  Remaining :: int
  Floor_Price :: real
  Reward :: real

text \<open>
  \<open>random.randint(a, b)\<close> for \<open>a \<le> b\<close>, driven by a raw draw \<open>r\<close>: every value of
  \<open>[a, b]\<close> is the outcome of some draw, and no other value is.
\<close>

definition randint :: "int \<Rightarrow> int \<Rightarrow> nat \<Rightarrow> int" where
  "randint a b r = a + int (r mod nat (b - a + 1))"

text \<open>The dictionary literal of lines 101 to 110, read in the engine state \<open>e\<close>.\<close>

definition make_day_entry :: "engine \<Rightarrow> string \<Rightarrow> real \<Rightarrow> int \<Rightarrow> int \<Rightarrow> real \<Rightarrow> error + day_entry" where
  "make_day_entry e concert price traffic tickets_sold_today reward =
     (case lookup (user_preferences e) concert of
        Inl err \<Rightarrow> Inl err
      | Inr pref \<Rightarrow>
     (case lookup (sold_tickets e) concert of
        Inl err \<Rightarrow> Inl err
      | Inr sold \<Rightarrow>
     (case lookup (total_tickets e) concert of
        Inl err \<Rightarrow> Inl err
      | Inr total_n \<Rightarrow>
     (case lookup (price_history e) concert of
        Inl err \<Rightarrow> Inl err
      | Inr h \<Rightarrow>
     (case median h of
        Inl err \<Rightarrow> Inl err
      | Inr floor_price \<Rightarrow>
          Inr \<lparr> Price = price, Traffic = traffic, Preference = pref,
                Sold_Today = tickets_sold_today, Total_Sold = sold,
                Remaining = total_n - sold, Floor_Price = floor_price,
                Reward = reward \<rparr>)))))"

text \<open>
  The body of the loop of \<open>simulate_purchase\<close> for one concert. An exception leaves the
  engine as mutated so far, so the state is returned beside the result. \<open>r\<close> is the raw
  draw behind this concert's \<open>random.randint\<close>.
\<close>

definition simulate_concert ::
  "(string \<rightharpoonup> int) \<Rightarrow> nat \<Rightarrow> string \<Rightarrow> engine \<Rightarrow> (error + day_entry) \<times> engine" where
  "simulate_concert web_traffic_dict r concert e =
     (case lookup web_traffic_dict concert of
        Inl err \<Rightarrow> (Inl err, e)
      | Inr traffic \<Rightarrow>
     (case get_price e concert traffic of
        Inl err \<Rightarrow> (Inl err, e)
      | Inr price \<Rightarrow>
     (case lookup (price_history e) concert of
        Inl err \<Rightarrow> (Inl err, e)
      | Inr h \<Rightarrow>
          let e1 = e\<lparr>price_history := (price_history e)(concert \<mapsto> h @ [price])\<rparr>;
              tickets_sold_today = randint 0 (max 1 (traffic div 10)) r
          in
          (case sell_ticket e1 concert tickets_sold_today of
             Inl err \<Rightarrow> (Inl err, e1)
           | Inr e2 \<Rightarrow>
          (case ConcertPricing_calculate_reward e2 concert price 5 of
             Inl err \<Rightarrow> (Inl err, e2)
           | Inr reward \<Rightarrow>
               (make_day_entry e2 concert price traffic tickets_sold_today reward, e2))))))"

text \<open>The loop over the keys of \<open>base_prices\<close>; the \<open>k\<close>-th iteration uses the draw \<open>rnd k\<close>.\<close>

fun simulate_loop ::
  "(string \<rightharpoonup> int) \<Rightarrow> (nat \<Rightarrow> nat) \<Rightarrow> string list \<Rightarrow> engine \<Rightarrow> (string \<rightharpoonup> day_entry) \<Rightarrow>
     (error + (string \<rightharpoonup> day_entry)) \<times> engine" where
  "simulate_loop web_traffic_dict rnd [] e day_state = (Inr day_state, e)"
| "simulate_loop web_traffic_dict rnd (concert # rest) e day_state =
     (case simulate_concert web_traffic_dict (rnd 0) concert e of
        (Inl err, e') \<Rightarrow> (Inl err, e')
      | (Inr entry, e') \<Rightarrow>
          simulate_loop web_traffic_dict (\<lambda>k. rnd (Suc k)) rest e' (day_state(concert \<mapsto> entry)))"

definition simulate_purchase ::
  "engine \<Rightarrow> string \<Rightarrow> (string \<rightharpoonup> int) \<Rightarrow> (nat \<Rightarrow> nat) \<Rightarrow>
     (error + (string \<rightharpoonup> day_entry)) \<times> engine" where
  "simulate_purchase e user_prompt web_traffic_dict rnd =
     (let e0 = parse_user_prompt e user_prompt in
      case simulate_loop web_traffic_dict rnd (map fst (base_prices e0)) e0 Map.empty of
        (Inl err, e') \<Rightarrow> (Inl err, e')
      | (Inr day_state, e') \<Rightarrow>
          (Inr day_state, e'\<lparr>current_date := current_date e' + day_us\<rparr>))"

section \<open>Example engines\<close>

text \<open>One concert \<open>A\<close> with the price history \<open>[100, 200]\<close> and a given preference.\<close>

definition E2 :: "int \<Rightarrow> engine" where
  "E2 pref = \<lparr> base_prices = [(''A'', 100)], total_tickets = [''A'' \<mapsto> 10],
       sold_tickets = [''A'' \<mapsto> 0], concert_dates = [''A'' \<mapsto> 0], current_date = 0,
       price_history = [''A'' \<mapsto> [100, 200]], user_preferences = [''A'' \<mapsto> pref] \<rparr>"

text \<open>The three concerts of \<open>app.py\<close>, freshly constructed at time 0.\<close>

definition E3 :: engine where
  "E3 = init [(''Coldplay'', 7000), (''Arijit Singh'', 5000), (''Taylor Swift'', 9000)]
         [''Coldplay'' \<mapsto> 1000, ''Arijit Singh'' \<mapsto> 1500, ''Taylor Swift'' \<mapsto> 2000]
         [''Coldplay'' \<mapsto> 20 * day_us, ''Arijit Singh'' \<mapsto> 25 * day_us, ''Taylor Swift'' \<mapsto> 30 * day_us]
         0"

text \<open>One concert \<open>A\<close>, twenty days ahead, with the price history \<open>[9000, 7000, 8000]\<close>.\<close>

definition E4 :: engine where
  "E4 = \<lparr> base_prices = [(''A'', 7000)], total_tickets = [''A'' \<mapsto> 1000],
          sold_tickets = [''A'' \<mapsto> 0], concert_dates = [''A'' \<mapsto> 20 * day_us],
          current_date = 0, price_history = [''A'' \<mapsto> [9000, 7000, 8000]],
          user_preferences = [''A'' \<mapsto> 50] \<rparr>"

section \<open>Invariants\<close>

text \<open>
  The ticket invariant: the totals are the ones the engine was built with, and every
  concert with a total has a sold count that does not exceed it.
\<close>

definition tickets_ok :: "(string \<rightharpoonup> int) \<Rightarrow> engine \<Rightarrow> bool" where
  "tickets_ok tt e \<longleftrightarrow> total_tickets e = tt \<and>
     (\<forall>c t. tt c = Some t \<longrightarrow> (\<exists>s. sold_tickets e c = Some s \<and> s \<le> t))"

section \<open>Properties of the reward scorers\<close>

lemma clip_mono: "p1 \<le> p2 \<Longrightarrow> clip p1 lo hi \<le> clip p2 lo hi"
  unfolding clip_def by (simp add: min_def max_def)

lemma digitize_right_mono: "x \<le> y \<Longrightarrow> digitize_right x bins \<le> digitize_right y bins"
  unfolding digitize_right_def by (induction bins) auto

lemma digitize_right_bounds: "0 \<le> digitize_right x bins \<and> digitize_right x bins \<le> int (length bins)"
  unfolding digitize_right_def by simp

lemma linspace_cases:
  "(num < 0 \<and> linspace a b num = Inl ValueError) \<or>
   (0 \<le> num \<and> (\<exists>bins. linspace a b num = Inr bins \<and> length bins = nat num))"
  unfolding linspace_def by auto

lemma linspace_lower: "a \<le> b \<Longrightarrow> linspace a b num = Inr bins \<Longrightarrow> x \<in> set bins \<Longrightarrow> a \<le> x"
  unfolding linspace_def by (auto split: if_splits simp: divide_nonneg_nonneg)

lemma digitize_right_at_start:
  assumes "a \<le> b" "linspace a b num = Inr bins"
  shows "digitize_right a bins = 0"
proof -
  have "\<forall>x\<in>set bins. \<not> x < a" using linspace_lower[OF assms] by force
  then have "filter (\<lambda>x. x < a) bins = []" by (simp add: filter_empty_conv)
  then show ?thesis by (simp add: digitize_right_def)
qed

lemma base_reward_mono:
  assumes "p1 \<le> p2"
  shows "(\<exists>r1 b1 r2 b2 bins. base_reward m M p1 nb = Inr (r1, b1, bins) \<and>
            base_reward m M p2 nb = Inr (r2, b2, bins) \<and> r2 \<le> r1 \<and> b1 \<le> b2) \<or>
         (nb + 1 < 0 \<and> base_reward m M p1 nb = Inl ValueError \<and> base_reward m M p2 nb = Inl ValueError)"
proof -
  from linspace_cases[of "nb + 1" m M] show ?thesis
  proof
    assume "nb + 1 < 0 \<and> linspace m M (nb + 1) = Inl ValueError"
    then show ?thesis by (simp add: base_reward_def)
  next
    assume "0 \<le> nb + 1 \<and> (\<exists>bins. linspace m M (nb + 1) = Inr bins \<and> length bins = nat (nb + 1))"
    then obtain bins where b: "linspace m M (nb + 1) = Inr bins" by blast
    have "digitize_right (clip p1 m M) bins \<le> digitize_right (clip p2 m M) bins"
      by (rule digitize_right_mono) (rule clip_mono[OF assms])
    then show ?thesis using b by (simp add: base_reward_def Let_def) (simp add: max_def min_def)
  qed
qed

lemma CP_base_reward_mono:
  assumes "p1 \<le> p2"
  shows "(\<exists>r1 b1 r2 b2. ConcertPricing_base_reward m M p1 nb = Inr (r1, b1) \<and>
            ConcertPricing_base_reward m M p2 nb = Inr (r2, b2) \<and> r2 \<le> r1 \<and> b1 \<le> b2) \<or>
         (nb + 1 < 0 \<and> ConcertPricing_base_reward m M p1 nb = Inl ValueError \<and> ConcertPricing_base_reward m M p2 nb = Inl ValueError)"
proof -
  from linspace_cases[of "nb + 1" m M] show ?thesis
  proof
    assume "nb + 1 < 0 \<and> linspace m M (nb + 1) = Inl ValueError"
    then show ?thesis by (simp add: ConcertPricing_base_reward_def)
  next
    assume "0 \<le> nb + 1 \<and> (\<exists>bins. linspace m M (nb + 1) = Inr bins \<and> length bins = nat (nb + 1))"
    then obtain bins where b: "linspace m M (nb + 1) = Inr bins" by blast
    have "digitize_right (clip p1 m M) bins \<le> digitize_right (clip p2 m M) bins"
      by (rule digitize_right_mono) (rule clip_mono[OF assms])
    then show ?thesis using b by (simp add: ConcertPricing_base_reward_def Let_def) 
  qed
qed

lemma base_reward_range:
  assumes "1 \<le> nb" "m \<le> M"
  shows "\<exists>r b bins. base_reward m M p nb = Inr (r, b, bins) \<and> 1 \<le> b \<and> b \<le> nb \<and>
           r = nb - b \<and> 0 \<le> r \<and> r \<le> nb - 1 \<and> length bins = nat (nb + 1) \<and>
           (p \<le> m \<longrightarrow> b = 1 \<and> r = nb - 1)"
proof -
  from linspace_cases[of "nb + 1" m M] assms obtain bins where
    b: "linspace m M (nb + 1) = Inr bins" "length bins = nat (nb + 1)" by auto
  have "p \<le> m \<Longrightarrow> clip p m M = m" using assms by (simp add: clip_def max_def min_def)
  then have "p \<le> m \<Longrightarrow> digitize_right (clip p m M) bins = 0"
    using digitize_right_at_start[OF assms(2) b(1)] by simp
  then show ?thesis using b assms by (auto simp add: base_reward_def Let_def)
qed

lemma fold_min_Min: "fold min xs (x::real) = Min (set (x # xs))"
  by (rule Min.set_eq_fold[symmetric])
lemma fold_max_Max: "fold max xs (x::real) = Max (set (x # xs))"
  by (rule Max.set_eq_fold[symmetric])

lemma CP_reward_nonneg:
  assumes "ConcertPricing_calculate_reward e c p nb = Inr r" "1 \<le> nb"
  shows "0 \<le> r"
  using assms unfolding ConcertPricing_calculate_reward_def
  by (auto simp: Let_def split: sum.splits list.splits if_splits prod.splits)

text \<open>
  Claim C4. For a non-empty history whose minimum equals its maximum, both scorers return
  exactly \<open>num_bins - 1\<close>, whatever the purchased price, the preference and the
  threshold; the standalone scorer also returns bin index 1 and \<open>num_bins + 1\<close> copies
  of the minimum as edges.
\<close>

theorem degenerate_history_reward:
  assumes "h \<noteq> []" and "Min (set h) = Max (set h)" and "price_history e c = Some h"
  shows "calculate_reward h p pref nb thr =
           Inr (real_of_int (nb - 1), Some 1, replicate (nat (nb + 1)) (Min (set h))) \<and>
         ConcertPricing_calculate_reward e c p nb = Inr (real_of_int (nb - 1))"
proof -
  from assms(1) obtain x xs where h: "h = x # xs" by (cases h) auto
  have m: "fold min xs x = Min (set h)" "fold max xs x = Max (set h)"
    unfolding h by (rule fold_min_Min, rule fold_max_Max)
  show ?thesis
    using assms(2,3) m
    by (simp add: calculate_reward_def ConcertPricing_calculate_reward_def lookup_def h Let_def)
qed

theorem degenerate_history_reward_witness:
  "[300, 300] \<noteq> ([] :: real list) \<and> Min (set [300, 300 :: real]) = Max (set [300, 300]) \<and>
   price_history (E2 10 \<lparr>price_history := [''A'' \<mapsto> [300, 300]]\<rparr>) ''A'' = Some [300, 300] \<and>
   calculate_reward [300, 300] 999 10 5 2 = Inr (4, Some 1, replicate 6 300) \<and>
   ConcertPricing_calculate_reward (E2 10 \<lparr>price_history := [''A'' \<mapsto> [300, 300]]\<rparr>) ''A'' 999 5 = Inr 4"
  using degenerate_history_reward [of "[300, 300]" "E2 10 \<lparr>price_history := [''A'' \<mapsto> [300, 300]]\<rparr>" "''A''" 999 10 5 2]
  by (simp add: E2_def)

text \<open>
  Claim C9. The two scorers are not extensionally equal: on the same history, purchased
  price, preference and \<open>num_bins\<close> they return different rewards. At history
  \<open>[100, 200]\<close>, price 120, preference 80 and five bins the standalone scorer gives 4.25
  (bonus 0.25 above preference 50) and the method gives 4.5 (bonus 0.5 above preference 70).
\<close>

theorem reward_implementations_differ:
  "\<exists>h p pref nb e c r1 bi bins r2.
     price_history e c = Some h \<and> user_preferences e c = Some pref \<and>
     calculate_reward h p pref nb 2 = Inr (r1, bi, bins) \<and>
     ConcertPricing_calculate_reward e c p nb = Inr r2 \<and> r1 \<noteq> r2"
proof -
  have a: "calculate_reward [100, 200] 120 80 5 2 = Inr (4.25, Some 1, [100, 120, 140, 160, 180, 200])"
    by (simp add: calculate_reward_def base_reward_def clip_def linspace_def digitize_right_def
      preference_adjustment_def threshold_adjustment_def Let_def upt_conv_Cons)
  have b: "ConcertPricing_calculate_reward (E2 80) ''A'' 120 5 = Inr 4.5"
    by (simp add: E2_def ConcertPricing_calculate_reward_def ConcertPricing_base_reward_def
      lookup_def clip_def linspace_def digitize_right_def Let_def upt_conv_Cons)
  have c: "price_history (E2 80) ''A'' = Some [100, 200]" "user_preferences (E2 80) ''A'' = Some 80"
    by (simp_all add: E2_def)
  have "(4.25::real) \<noteq> 4.5" by simp
  with a b c show ?thesis by blast
qed

text \<open>
  Claim C1. The standalone scorer has no floor after its preference and threshold
  adjustments: at history \<open>[100, 200]\<close>, purchased price 200, the default preference 50,
  five bins and the default threshold 2 it returns the reward \<open>-1\<close>.
\<close>

theorem standalone_reward_negative:
  "calculate_reward [100, 200] 200 50 5 2 = Inr (- 1, Some 5, [100, 120, 140, 160, 180, 200])"
  by (simp add: calculate_reward_def base_reward_def clip_def linspace_def digitize_right_def
      preference_adjustment_def threshold_adjustment_def Let_def upt_conv_Cons)

text \<open>
  Claim C2. The method does not clamp the bin index: a purchased price equal to the
  historical minimum gets bin index 0 and base reward \<open>num_bins\<close>, here 5 of 5 bins, and
  the reward returned is 5.
\<close>

theorem method_bin_index_zero:
  "ConcertPricing_base_reward 100 200 100 5 = Inr (5, 0) \<and>
   ConcertPricing_calculate_reward (E2 50) ''A'' 100 5 = Inr 5"
  by (simp add: E2_def ConcertPricing_calculate_reward_def ConcertPricing_base_reward_def
      lookup_def clip_def linspace_def digitize_right_def Let_def upt_conv_Cons)

text \<open>
  Claim C5. For a non-empty history with minimum different from maximum, a fixed
  \<open>num_bins\<close> and purchased prices \<open>p1 < p2\<close>, the base reward of \<open>p1\<close> is at least the
  base reward of \<open>p2\<close>, in both scorers; when \<open>num_bins + 1\<close> is negative both calls raise
  \<open>ValueError\<close> instead.
\<close>

theorem base_reward_monotone:
  assumes "h \<noteq> []" and "Min (set h) \<noteq> Max (set h)" and "p1 < p2"
  shows "((\<exists>r1 b1 r2 b2 bins.
             base_reward (Min (set h)) (Max (set h)) p1 nb = Inr (r1, b1, bins) \<and>
             base_reward (Min (set h)) (Max (set h)) p2 nb = Inr (r2, b2, bins) \<and> r2 \<le> r1) \<or>
          (nb + 1 < 0 \<and> base_reward (Min (set h)) (Max (set h)) p1 nb = Inl ValueError \<and>
             base_reward (Min (set h)) (Max (set h)) p2 nb = Inl ValueError)) \<and>
         ((\<exists>r1 b1 r2 b2.
             ConcertPricing_base_reward (Min (set h)) (Max (set h)) p1 nb = Inr (r1, b1) \<and>
             ConcertPricing_base_reward (Min (set h)) (Max (set h)) p2 nb = Inr (r2, b2) \<and> r2 \<le> r1) \<or>
          (nb + 1 < 0 \<and> ConcertPricing_base_reward (Min (set h)) (Max (set h)) p1 nb = Inl ValueError \<and>
             ConcertPricing_base_reward (Min (set h)) (Max (set h)) p2 nb = Inl ValueError))"
proof -
  have le: "p1 \<le> p2" using assms(3) by simp
  show ?thesis
    using base_reward_mono[OF le, of "Min (set h)" "Max (set h)" nb]
          CP_base_reward_mono[OF le, of "Min (set h)" "Max (set h)" nb]
    by blast
qed

theorem base_reward_monotone_witness:
  "[100, 200] \<noteq> ([] :: real list) \<and> Min (set [100, 200 :: real]) \<noteq> Max (set [100, 200]) \<and> (120 :: real) < 180 \<and>
   base_reward 100 200 120 5 = Inr (4, 1, [100, 120, 140, 160, 180, 200]) \<and>
   base_reward 100 200 180 5 = Inr (1, 4, [100, 120, 140, 160, 180, 200]) \<and>
   ConcertPricing_base_reward 100 200 120 5 = Inr (4, 1) \<and>
   ConcertPricing_base_reward 100 200 180 5 = Inr (1, 4)"
  using base_reward_monotone [of "[100, 200]" 120 180 5]
  by (simp add: base_reward_def ConcertPricing_base_reward_def clip_def linspace_def
      digitize_right_def Let_def upt_conv_Cons)

section \<open>Selling tickets\<close>

lemma sell_ticket_ok:
  assumes "tickets_ok tt e" "sell_ticket e c num = Inr e'"
  shows "tickets_ok tt e'"
  using assms unfolding tickets_ok_def sell_ticket_def lookup_def
  by (auto simp: Let_def split: option.splits)

lemma sell_sequence_ok:
  "tickets_ok tt e \<Longrightarrow> sell_sequence e ops = Inr e' \<Longrightarrow> tickets_ok tt e'"
proof (induction ops arbitrary: e)
  case Nil
  then show ?case by simp
next
  case (Cons op ops)
  obtain c num where op: "op = (c, num)" by (cases op)
  from Cons.prems(2) obtain e1 where s: "sell_ticket e c num = Inr e1" "sell_sequence e1 ops = Inr e'"
    by (auto simp: op split: sum.splits)
  from Cons.IH[OF sell_ticket_ok[OF Cons.prems(1) s(1)] s(2)] show ?case .
qed

lemma init_ok: "\<forall>c t. tt c = Some t \<longrightarrow> 0 \<le> t \<Longrightarrow> tickets_ok tt (init bp tt cd now)"
  unfolding tickets_ok_def init_def by auto

lemma sell_ticket_clamps:
  assumes "sold_tickets e c = Some s" "total_tickets e c = Some t" "t - s < num"
  shows "sell_ticket e c num = Inr (e\<lparr>sold_tickets := (sold_tickets e)(c \<mapsto> s + (t - s))\<rparr>)"
  using assms unfolding sell_ticket_def lookup_def by (simp add: Let_def min_def)

text \<open>
  Claim C7. Starting from a fresh engine (zero sold tickets, totals not negative), after
  any run of \<open>sell_ticket\<close> calls every concert with a total has a sold count at most its
  total; and in such a state a call asking for more tickets than remain returns normally
  and adds exactly the remaining count to the sold count.
\<close>

theorem ticket_conservation:
  assumes "\<forall>c t. tt c = Some t \<longrightarrow> 0 \<le> t"
    and "sell_sequence (init bp tt cd now) ops = Inr e"
  shows "(\<forall>c t. total_tickets e c = Some t \<longrightarrow> (\<exists>s. sold_tickets e c = Some s \<and> s \<le> t)) \<and>
         (\<forall>c s t num. sold_tickets e c = Some s \<and> total_tickets e c = Some t \<and> t - s < num \<longrightarrow>
            sell_ticket e c num = Inr (e\<lparr>sold_tickets := (sold_tickets e)(c \<mapsto> s + (t - s))\<rparr>))"
proof -
  have "tickets_ok tt e" using sell_sequence_ok[OF init_ok[OF assms(1)] assms(2)] .
  then show ?thesis using sell_ticket_clamps by (auto simp: tickets_ok_def)
qed

theorem ticket_conservation_witness:
  "\<exists>e e'. sell_sequence (init [(''A'', 100)] [''A'' \<mapsto> 10] [''A'' \<mapsto> 0] 0) [(''A'', 7), (''A'', 5)] = Inr e \<and>
     total_tickets e ''A'' = Some 10 \<and> sold_tickets e ''A'' = Some 10 \<and>
     sell_ticket e ''A'' 3 = Inr e' \<and> sold_tickets e' ''A'' = Some 10"
proof -
  let ?tt = "[''A'' \<mapsto> 10 :: int]"
  let ?start = "init [(''A'', 100)] ?tt [''A'' \<mapsto> 0] 0"
  let ?fin = "?start\<lparr>sold_tickets := [''A'' \<mapsto> 10]\<rparr>"
  have h1: "\<forall>c t. ?tt c = Some t \<longrightarrow> 0 \<le> t" by simp
  have h2: "sell_sequence ?start [(''A'', 7), (''A'', 5)] = Inr ?fin"
    by (simp add: init_def sell_ticket_def lookup_def Let_def fun_eq_iff)
  have s: "sold_tickets ?fin ''A'' = Some 10" "total_tickets ?fin ''A'' = Some 10"
    by (simp_all add: init_def)
  from ticket_conservation [OF h1 h2]
  have "\<forall>c s t num. sold_tickets ?fin c = Some s \<and> total_tickets ?fin c = Some t \<and> t - s < num \<longrightarrow>
          sell_ticket ?fin c num = Inr (?fin\<lparr>sold_tickets := (sold_tickets ?fin)(c \<mapsto> s + (t - s))\<rparr>)"
    by (rule conjunct2)
  then have "sold_tickets ?fin ''A'' = Some 10 \<and> total_tickets ?fin ''A'' = Some 10 \<and> (10::int) - 10 < 3 \<longrightarrow>
          sell_ticket ?fin ''A'' 3 = Inr (?fin\<lparr>sold_tickets := (sold_tickets ?fin)(''A'' \<mapsto> 10 + (10 - 10))\<rparr>)"
    by blast
  with s have t: "sell_ticket ?fin ''A'' 3 = Inr (?fin\<lparr>sold_tickets := (sold_tickets ?fin)(''A'' \<mapsto> 10 + (10 - 10))\<rparr>)"
    by simp
  have u: "sold_tickets (?fin\<lparr>sold_tickets := (sold_tickets ?fin)(''A'' \<mapsto> 10 + (10 - 10))\<rparr>) ''A'' = Some 10"
    by simp
  from h2 s t u show ?thesis by blast
qed

section \<open>The prompt parser\<close>

lemma fold_prefs:
  "fold (\<lambda>concert prefs. if Some concert = sel then prefs(concert \<mapsto> hi) else prefs(concert \<mapsto> lo)) ks m
     = (\<lambda>k. if k \<in> set ks then Some (if Some k = sel then hi else lo) else m k)"
  by (induction ks arbitrary: m) (auto simp: fun_eq_iff)

lemma find_unique:
  assumes "c \<in> set ks" "P c" "\<forall>c'\<in>set ks. c' \<noteq> c \<longrightarrow> \<not> P c'"
  shows "List.find P ks = Some c"
  using assms by (induction ks) auto

text \<open>
  Claim C8. When exactly one key of \<open>base_prices\<close> occurs (case-insensitively) in the
  prompt, \<open>_parse_user_prompt\<close> gives that concert the preference 95 and every other
  concert of \<open>base_prices\<close> the preference 40, and the resulting preferences are the same
  for every order (and repetition) of the same keys in \<open>base_prices\<close>.
\<close>

theorem parse_user_prompt_single_match:
  assumes "c \<in> set (map fst (base_prices e))"
    and "contains (lower c) (lower prompt)"
    and "\<forall>c'\<in>set (map fst (base_prices e)). c' \<noteq> c \<longrightarrow> \<not> contains (lower c') (lower prompt)"
  shows "user_preferences (parse_user_prompt e prompt) =
           (\<lambda>k. if k = c then Some 95
                else if k \<in> set (map fst (base_prices e)) then Some 40
                else user_preferences e k) \<and>
         (\<forall>bp. set (map fst bp) = set (map fst (base_prices e)) \<longrightarrow>
            user_preferences (parse_user_prompt (e\<lparr>base_prices := bp\<rparr>) prompt) =
            user_preferences (parse_user_prompt e prompt))"
proof -
  have sel: "List.find (\<lambda>concert. contains (lower concert) (lower prompt)) ks = Some c"
    if "set ks = set (map fst (base_prices e))" for ks
    using find_unique[of c ks "\<lambda>concert. contains (lower concert) (lower prompt)"] assms that
    by simp
  have one: "user_preferences (parse_user_prompt (e\<lparr>base_prices := bp\<rparr>) prompt) =
           (\<lambda>k. if k = c then Some 95
                else if k \<in> set (map fst (base_prices e)) then Some 40
                else user_preferences e k)"
    if "set (map fst bp) = set (map fst (base_prices e))" for bp
    using sel[OF that] that assms(1)
    by (auto simp: parse_user_prompt_def Let_def fold_prefs fun_eq_iff)
  from one[of "base_prices e"] have a: "user_preferences (parse_user_prompt e prompt) =
           (\<lambda>k. if k = c then Some 95
                else if k \<in> set (map fst (base_prices e)) then Some 40
                else user_preferences e k)" by simp
  show ?thesis using a one by simp
qed

theorem parse_user_prompt_single_match_witness:
  "user_preferences (parse_user_prompt E3 ''I want COLDPLAY tickets'') ''Coldplay'' = Some 95 \<and>
   user_preferences (parse_user_prompt E3 ''I want COLDPLAY tickets'') ''Arijit Singh'' = Some 40 \<and>
   user_preferences (parse_user_prompt E3 ''I want COLDPLAY tickets'') ''Taylor Swift'' = Some 40 \<and>
   user_preferences (parse_user_prompt
       (E3\<lparr>base_prices := [(''Taylor Swift'', 9000), (''Coldplay'', 7000), (''Arijit Singh'', 5000)]\<rparr>)
       ''I want COLDPLAY tickets'') =
     user_preferences (parse_user_prompt E3 ''I want COLDPLAY tickets'')"
proof -
  have k: "map fst (base_prices E3) = [''Coldplay'', ''Arijit Singh'', ''Taylor Swift'']"
    by (simp add: E3_def init_def)
  have h1: "''Coldplay'' \<in> set (map fst (base_prices E3))" by (simp add: k)
  have h2: "contains (lower ''Coldplay'') (lower ''I want COLDPLAY tickets'')" by code_simp
  have n1: "\<not> contains (lower ''Arijit Singh'') (lower ''I want COLDPLAY tickets'')" by code_simp
  have n2: "\<not> contains (lower ''Taylor Swift'') (lower ''I want COLDPLAY tickets'')" by code_simp
  have h3: "\<forall>c'\<in>set (map fst (base_prices E3)). c' \<noteq> ''Coldplay'' \<longrightarrow>
              \<not> contains (lower c') (lower ''I want COLDPLAY tickets'')"
    using n1 n2 by (simp add: k)
  let ?bp = "[(''Taylor Swift'', 9000), (''Coldplay'', 7000), (''Arijit Singh'', 5000 :: real)]"
  from parse_user_prompt_single_match [OF h1 h2 h3]
  have a: "user_preferences (parse_user_prompt E3 ''I want COLDPLAY tickets'') =
           (\<lambda>k. if k = ''Coldplay'' then Some 95
                else if k \<in> set (map fst (base_prices E3)) then Some 40
                else user_preferences E3 k)"
    and b: "\<forall>bp. set (map fst bp) = set (map fst (base_prices E3)) \<longrightarrow>
            user_preferences (parse_user_prompt (E3\<lparr>base_prices := bp\<rparr>) ''I want COLDPLAY tickets'') =
            user_preferences (parse_user_prompt E3 ''I want COLDPLAY tickets'')"
    by blast+
  have c: "set (map fst ?bp) = set (map fst (base_prices E3))" by (auto simp: k)
  from b c have d: "user_preferences (parse_user_prompt (E3\<lparr>base_prices := ?bp\<rparr>) ''I want COLDPLAY tickets'') =
            user_preferences (parse_user_prompt E3 ''I want COLDPLAY tickets'')"
    by blast
  show ?thesis using d by (simp add: a k)
qed

section \<open>The median floor of the price\<close>

lemma sort_Nil_iff: "sort h = [] \<longleftrightarrow> h = []"
  by (metis length_0_conv length_sort)

lemma median_value:
  "h \<noteq> [] \<Longrightarrow>
     median h = Inr (if length h mod 2 = 1 then sort h ! (length h div 2)
                     else (sort h ! (length h div 2 - 1) + sort h ! (length h div 2)) / 2)"
  by (simp add: median_def Let_def sort_Nil_iff)

lemma median_nonempty: "h \<noteq> [] \<Longrightarrow> \<exists>m. median h = Inr m"
  using median_value by blast

text \<open>
  Claim C3. For a concert whose base price, date and ticket counts are known (so that the
  multipliers are computed) and whose history is \<open>h\<close>: with an empty history
  \<open>get_price\<close> returns the rounded product of the multipliers unchanged; with a non-empty
  history it returns the maximum of that product and the median of \<open>h\<close>, which is at
  least the median, for every traffic value.
\<close>

theorem get_price_median_floor:
  assumes "map_of (base_prices e) c = Some base"
    and "time_multiplier e c = Inr t_factor"
    and "inventory_multiplier e c = Inr i_factor"
    and "price_history e c = Some h"
  shows "(h = [] \<longrightarrow>
            get_price e c traffic =
              Inr (round2 (base * t_factor * i_factor * traffic_multiplier traffic *
                     preference_multiplier e c))) \<and>
         (h \<noteq> [] \<longrightarrow>
            (\<exists>floor_price p. median h = Inr floor_price \<and> get_price e c traffic = Inr p \<and>
               p = max (round2 (base * t_factor * i_factor * traffic_multiplier traffic *
                          preference_multiplier e c)) floor_price \<and>
               floor_price \<le> p))"
proof (cases h)
  case Nil
  then show ?thesis using assms by (simp add: get_price_def lookup_def Let_def)
next
  case (Cons x xs)
  then have "h \<noteq> []" by simp
  from median_nonempty[OF this] obtain m where m: "median h = Inr m" by blast
  show ?thesis using assms m Cons by (simp add: get_price_def lookup_def Let_def)
qed

theorem get_price_median_floor_witness:
  "median [9000, 7000, 8000] = Inr 8000 \<and> get_price E4 ''A'' 50 = Inr 8000 \<and>
   get_price (E4\<lparr>price_history := [''A'' \<mapsto> []]\<rparr>) ''A'' 50 = Inr 7000"
proof -
  have b: "map_of (base_prices E4) ''A'' = Some 7000" by (simp add: E4_def)
  have t: "time_multiplier E4 ''A'' = Inr 1" by (simp add: E4_def time_multiplier_def lookup_def day_us_def)
  have i: "inventory_multiplier E4 ''A'' = Inr 1" by (simp add: E4_def inventory_multiplier_def lookup_def)
  have h: "price_history E4 ''A'' = Some [9000, 7000, 8000]" by (simp add: E4_def)
  have m: "median [9000, 7000, 8000] = Inr 8000" by (simp add: median_def)
  have r: "round2 (7000 * 1 * 1 * traffic_multiplier 50 * preference_multiplier E4 ''A'') = 7000"
    by (simp add: round2_def traffic_multiplier_def preference_multiplier_def E4_def)
  from get_price_median_floor [OF b t i h, of 50] m r have 1: "get_price E4 ''A'' 50 = Inr 8000"
    by auto
  let ?E = "E4\<lparr>price_history := [''A'' \<mapsto> []]\<rparr>"
  have b': "map_of (base_prices ?E) ''A'' = Some 7000" by (simp add: E4_def)
  have t': "time_multiplier ?E ''A'' = Inr 1" by (simp add: E4_def time_multiplier_def lookup_def day_us_def)
  have i': "inventory_multiplier ?E ''A'' = Inr 1" by (simp add: E4_def inventory_multiplier_def lookup_def)
  have h': "price_history ?E ''A'' = Some []" by simp
  have r': "round2 (7000 * 1 * 1 * traffic_multiplier 50 * preference_multiplier ?E ''A'') = 7000"
    by (simp add: round2_def traffic_multiplier_def preference_multiplier_def E4_def)
  from get_price_median_floor [OF b' t' i' h', of 50] r' have 2: "get_price ?E ''A'' 50 = Inr 7000"
    by auto
  from m 1 2 show ?thesis by simp
qed

end
